theory Spec2Isabelle
  imports Complex_Main
begin

section \<open>Semantic checking of the expression language (exprcheck.py)\<close>

text \<open>
  The checking pass of \<^verbatim>\<open>exprcheck.py\<close> walks the syntax tree, resolves names in
  one flat symbol table, attaches a \<^verbatim>\<open>check_type\<close> attribute to the nodes and
  reports diagnostics through \<^verbatim>\<open>error(lineno, message)\<close>.

  The model follows the visitor method by method:
  \<^item> a node is a value of a datatype, carrying a slot for the attribute
    \<^verbatim>\<open>check_type\<close>; a visit returns the node as the in-place mutation leaves it;
  \<^item> the error sink is the list of the diagnostics reported so far, in order. A
    diagnostic is the message template with its format arguments; the line number, which
    is copied from the node and never tested, is left out;
  \<^item> a Python exception is a value \<open>Inl exn\<close>; since nothing in the pass catches
    exceptions, a raise ends the pass, and the state returned with it is the symbol table
    and the diagnostics at that moment (the annotations already made in the subtree being
    visited are not returned);
  \<^item> the symbol table holds references to nodes. An attribute written to a declaration
    after it was registered is seen through the table, so the model writes the table
    entry again whenever the declaration changes (visiting an expression never writes the
    table, so the name is still bound to that declaration at that moment).
\<close>

subsection \<open>Literal values\<close>

text \<open>
  The value of a \<^verbatim>\<open>Literal\<close> is a Python object. \<open>OtherV\<close> stands for a value
  of any class other than \<^verbatim>\<open>int\<close>, \<^verbatim>\<open>float\<close>, \<^verbatim>\<open>str\<close> and \<^verbatim>\<open>bool\<close>.
  \<open>type_of_value\<close> is Python's \<^verbatim>\<open>type(node.value)\<close>.
\<close>

datatype pyvalue = IntV int | FloatV real | StrV string | BoolV bool | OtherV

datatype valkind = Kint | Kfloat | Kstr | Kbool | Kother

fun type_of_value :: "pyvalue \<Rightarrow> valkind" where
  "type_of_value (IntV i) = Kint"
| "type_of_value (FloatV x) = Kfloat"
| "type_of_value (StrV s) = Kstr"
| "type_of_value (BoolV b) = Kbool"
| "type_of_value OtherV = Kother"

subsection \<open>The type registry (exprtype.py)\<close>

text \<open>
  Modelled from the spec: the module \<^verbatim>\<open>exprtype\<close> (the class \<^verbatim>\<open>ExprType\<close> and its
  four instances) is not among the sources. The spec gives exactly four built-in types,
  compared by identity, each with a name, a default value and its sets of unary and
  binary operators (the table of its section 4.1, which for int, float and string is
  also the table in the docstring of \<^verbatim>\<open>exprcheck.py\<close>). The sets of relational
  operators are not given anywhere: they are the parameter \<open>R\<close> of the functions below,
  a table from the type to its \<^verbatim>\<open>rel_ops\<close>.
\<close>

datatype exprtype = IntType | FloatType | StringType | BoolType

fun typename :: "exprtype \<Rightarrow> string" where
  "typename IntType = ''int''"
| "typename FloatType = ''float''"
| "typename StringType = ''string''"
| "typename BoolType = ''bool''"

fun unary_ops :: "exprtype \<Rightarrow> string set" where
  "unary_ops IntType = {''+'', ''-''}"
| "unary_ops FloatType = {''+'', ''-''}"
| "unary_ops StringType = {}"
| "unary_ops BoolType = {}"

fun binary_ops :: "exprtype \<Rightarrow> string set" where
  "binary_ops IntType = {''+'', ''-'', ''*'', ''/''}"
| "binary_ops FloatType = {''+'', ''-'', ''*'', ''/''}"
| "binary_ops StringType = {''+''}"
| "binary_ops BoolType = {}"

fun default_of :: "exprtype \<Rightarrow> pyvalue" where
  "default_of IntType = IntV 0"
| "default_of FloatType = FloatV 0"
| "default_of StringType = StrV []"
| "default_of BoolType = BoolV False"

type_synonym rel_table = "exprtype \<Rightarrow> string set"

subsection \<open>Syntax tree nodes (exprast.py)\<close>

text \<open>
  Modelled from the spec: the node classes of \<^verbatim>\<open>exprast\<close> are not among the
  sources; their fields are the ones \<^verbatim>\<open>exprcheck.py\<close> reads. The attribute
  \<^verbatim>\<open>check_type\<close> is absent on a node (\<open>NoAttr\<close>: \<^verbatim>\<open>hasattr\<close> is false) until a
  visit assigns it; once assigned it holds \<^verbatim>\<open>None\<close> or a type.
\<close>

datatype attr = NoAttr | Attr "exprtype option"

datatype location = Location string attr

datatype typename_node = Typename string attr

datatype expr =
    Literal pyvalue attr
  | LoadLocation location attr
  | Unaryop string expr attr
  | Binop string expr expr attr
  | Relop string expr expr attr

datatype statement =
    AssignmentStatement location expr
  | ConstDeclaration string expr attr
  | VarDeclaration string typename_node "expr option" attr

fun location_name :: "location \<Rightarrow> string" where
  "location_name (Location n a) = n"

fun location_check_type :: "location \<Rightarrow> attr" where
  "location_check_type (Location n a) = a"

fun typename_check_type :: "typename_node \<Rightarrow> attr" where
  "typename_check_type (Typename n a) = a"

fun expr_check_type :: "expr \<Rightarrow> attr" where
  "expr_check_type (Literal v a) = a"
| "expr_check_type (LoadLocation l a) = a"
| "expr_check_type (Unaryop opr e a) = a"
| "expr_check_type (Binop opr l r a) = a"
| "expr_check_type (Relop opr l r a) = a"

subsection \<open>Exceptions, diagnostics and the error sink (errors.py)\<close>

datatype exn = AttributeError | NameError

datatype side = LHS | RHS

datatype diag =
    UnaryNotSupported string
  | BinaryMismatch string
  | BinaryNotSupported string side
  | RelMismatch string
  | RelNotSupported string side
  | NameNotDefined string
  | CannotAssign "exprtype option" "exprtype option"
  | CannotAssignConst string
  | RedefineConst string
  | RedefineVar string
  | NotValidType string
  | NameNotFound string
  | TypeOutsideDecl string
  | UnrecognizedType valkind

text \<open>
  Modelled from the spec: \<^verbatim>\<open>errors.error\<close> is not among the sources; it records the
  diagnostic and returns (section 6: fire and continue).
\<close>

definition error :: "diag \<Rightarrow> diag list \<Rightarrow> diag list" where
  "error msg es = es @ [msg]"

text \<open>Reading the attribute \<^verbatim>\<open>check_type\<close>: absent raises AttributeError.\<close>

fun getattr_check_type :: "attr \<Rightarrow> exn + exprtype option" where
  "getattr_check_type NoAttr = Inl AttributeError"
| "getattr_check_type (Attr v) = Inr v"

subsection \<open>The symbol table\<close>

text \<open>
  \<^verbatim>\<open>SymbolTable\<close> is a dict from names to objects: a type, a declaration node, or
  (after \<^verbatim>\<open>visit_Program\<close> has recorded an assignment) an expression node.
\<close>

datatype entry = TypeObj exprtype | DeclObj statement | ExprObj expr

type_synonym symtab = "string \<rightharpoonup> entry"

definition add :: "symtab \<Rightarrow> string \<Rightarrow> entry \<Rightarrow> symtab" where
  "add st n v = st(n \<mapsto> v)"

definition lookup :: "symtab \<Rightarrow> string \<Rightarrow> entry option" where
  "lookup st n = st n"

text \<open>
  \<^verbatim>\<open>sym.check_type\<close> on an object of the table. The spec lists the attributes of a
  type (name, operator sets, default): \<^verbatim>\<open>check_type\<close> is not one of them.
\<close>

fun sym_check_type :: "entry \<Rightarrow> exn + exprtype option" where
  "sym_check_type (TypeObj t) = Inl AttributeError"
| "sym_check_type (DeclObj (ConstDeclaration n e a)) = getattr_check_type a"
| "sym_check_type (DeclObj (VarDeclaration n tn e a)) = getattr_check_type a"
| "sym_check_type (DeclObj (AssignmentStatement l e)) = Inl AttributeError"
| "sym_check_type (ExprObj e) = getattr_check_type (expr_check_type e)"

text \<open>\<^verbatim>\<open>CheckProgramVisitor.__init__\<close>: the pre-seeded table and the type map.\<close>

definition init_symtab :: symtab where
  "init_symtab = [''int'' \<mapsto> TypeObj IntType, ''float'' \<mapsto> TypeObj FloatType,
                  ''string'' \<mapsto> TypeObj StringType, ''bool'' \<mapsto> TypeObj BoolType]"

fun typemap :: "valkind \<Rightarrow> exprtype option" where
  "typemap Kint = Some IntType"
| "typemap Kfloat = Some FloatType"
| "typemap Kstr = Some StringType"
| "typemap Kbool = Some BoolType"
| "typemap Kother = None"

subsection \<open>Operator checks\<close>

text \<open>
  Each check returns the value the method returns (\<^verbatim>\<open>None\<close> when it falls off its
  end) or the exception raised by \<^verbatim>\<open>None.unary_ops\<close> and the like.
\<close>

definition check_type_unary ::
  "string \<Rightarrow> expr \<Rightarrow> diag list \<Rightarrow> (exn + exprtype option) \<times> diag list" where
  "check_type_unary opr val es =
     (case expr_check_type val of
        NoAttr \<Rightarrow> (Inr None, es)
      | Attr None \<Rightarrow> (Inl AttributeError, es)
      | Attr (Some t) \<Rightarrow>
          (Inr (Some t), if opr \<notin> unary_ops t then error (UnaryNotSupported opr) es else es))"

definition check_type_binary ::
  "string \<Rightarrow> expr \<Rightarrow> expr \<Rightarrow> diag list \<Rightarrow> (exn + exprtype option) \<times> diag list" where
  "check_type_binary opr left right es =
     (case expr_check_type left of
        NoAttr \<Rightarrow> (Inr None, es)
      | Attr lt \<Rightarrow>
         (case expr_check_type right of
            NoAttr \<Rightarrow> (Inr None, es)
          | Attr rt \<Rightarrow>
             if lt \<noteq> rt then (Inr lt, error (BinaryMismatch opr) es)
             else
              (case lt of
                 None \<Rightarrow> (Inl AttributeError, es)
               | Some t \<Rightarrow>
                  (case rt of
                     None \<Rightarrow> (Inl AttributeError, es)
                   | Some t' \<Rightarrow>
                      (let errside0 = None;
                           errside1 = (if opr \<notin> binary_ops t then Some LHS else errside0);
                           errside2 = (if opr \<notin> binary_ops t' then Some RHS else errside1)
                       in (Inr lt,
                           case errside2 of
                             None \<Rightarrow> es
                           | Some sd \<Rightarrow> error (BinaryNotSupported opr sd) es))))))"

definition check_type_rel ::
  "rel_table \<Rightarrow> string \<Rightarrow> expr \<Rightarrow> expr \<Rightarrow> diag list \<Rightarrow> (exn + exprtype option) \<times> diag list" where
  "check_type_rel R opr left right es =
     (case expr_check_type left of
        NoAttr \<Rightarrow> (Inr None, es)
      | Attr lt \<Rightarrow>
         (case expr_check_type right of
            NoAttr \<Rightarrow> (Inr None, es)
          | Attr rt \<Rightarrow>
             if lt \<noteq> rt then (Inr lt, error (RelMismatch opr) es)
             else
              (case lt of
                 None \<Rightarrow> (Inl AttributeError, es)
               | Some t \<Rightarrow>
                  (case rt of
                     None \<Rightarrow> (Inl AttributeError, es)
                   | Some t' \<Rightarrow>
                      (let errside0 = None;
                           errside1 = (if opr \<notin> R t then Some LHS else errside0);
                           errside2 = (if opr \<notin> R t' then Some RHS else errside1)
                       in (Inr (Some BoolType),
                           case errside2 of
                             None \<Rightarrow> es
                           | Some sd \<Rightarrow> error (RelNotSupported opr sd) es))))))"

subsection \<open>Visiting locations, type names and expressions\<close>

text \<open>
  \<^verbatim>\<open>if not sym\<close> holds exactly when the lookup returned \<^verbatim>\<open>None\<close>: the objects of
  the table are instances of plain classes, which are true in Python.
\<close>

definition visit_Typename :: "symtab \<Rightarrow> typename_node \<Rightarrow> diag list \<Rightarrow> typename_node \<times> diag list" where
  "visit_Typename st node es =
     (case node of Typename n a \<Rightarrow>
        (case lookup st n of
           Some (TypeObj t) \<Rightarrow> (Typename n (Attr (Some t)), es)
         | _ \<Rightarrow> (Typename n a, error (NotValidType n) es)))"

definition visit_Location :: "symtab \<Rightarrow> location \<Rightarrow> diag list \<Rightarrow> (exn + location) \<times> diag list" where
  "visit_Location st node es =
     (case node of Location n a \<Rightarrow>
        (case lookup st n of
           None \<Rightarrow> (Inl AttributeError, error (NameNotFound n) es)
         | Some symb \<Rightarrow>
            (case sym_check_type symb of
               Inl x \<Rightarrow> (Inl x, es)
             | Inr t \<Rightarrow> (Inr (Location n (Attr t)), es))))"

definition visit_LoadLocation ::
  "symtab \<Rightarrow> location \<Rightarrow> attr \<Rightarrow> diag list \<Rightarrow> (exn + expr) \<times> diag list" where
  "visit_LoadLocation st loc a es =
     (case lookup st (location_name loc) of
        None \<Rightarrow> (Inr (LoadLocation loc a), error (NameNotFound (location_name loc)) es)
      | Some (TypeObj t) \<Rightarrow> (Inr (LoadLocation loc a), error (TypeOutsideDecl (typename t)) es)
      | Some symb \<Rightarrow>
         (case sym_check_type symb of
            Inl x \<Rightarrow> (Inl x, es)
          | Inr None \<Rightarrow> (Inl NameError, es)
          | Inr (Some t) \<Rightarrow> (Inr (LoadLocation loc (Attr (Some t))), es)))"

definition visit_Literal :: "pyvalue \<Rightarrow> attr \<Rightarrow> diag list \<Rightarrow> (exn + expr) \<times> diag list" where
  "visit_Literal v a es =
     (let valtype = type_of_value v;
          check_type = typemap valtype
      in (Inr (Literal v (Attr check_type)),
          if check_type = None then error (UnrecognizedType valtype) es else es))"

fun visit_expr :: "rel_table \<Rightarrow> symtab \<Rightarrow> expr \<Rightarrow> diag list \<Rightarrow> (exn + expr) \<times> diag list" where
  "visit_expr R st (Literal v a) es = visit_Literal v a es"
| "visit_expr R st (LoadLocation loc a) es = visit_LoadLocation st loc a es"
| "visit_expr R st (Unaryop opr e a) es =
     (case visit_expr R st e es of
        (Inl x, es1) \<Rightarrow> (Inl x, es1)
      | (Inr e', es1) \<Rightarrow>
         (case check_type_unary opr e' es1 of
            (Inl x, es2) \<Rightarrow> (Inl x, es2)
          | (Inr t, es2) \<Rightarrow> (Inr (Unaryop opr e' (Attr t)), es2)))"
| "visit_expr R st (Binop opr l r a) es =
     (case visit_expr R st l es of
        (Inl x, es1) \<Rightarrow> (Inl x, es1)
      | (Inr l', es1) \<Rightarrow>
         (case visit_expr R st r es1 of
            (Inl x, es2) \<Rightarrow> (Inl x, es2)
          | (Inr r', es2) \<Rightarrow>
             (case check_type_binary opr l' r' es2 of
                (Inl x, es3) \<Rightarrow> (Inl x, es3)
              | (Inr t, es3) \<Rightarrow> (Inr (Binop opr l' r' (Attr t)), es3))))"
| "visit_expr R st (Relop opr l r a) es =
     (case visit_expr R st l es of
        (Inl x, es1) \<Rightarrow> (Inl x, es1)
      | (Inr l', es1) \<Rightarrow>
         (case visit_expr R st r es1 of
            (Inl x, es2) \<Rightarrow> (Inl x, es2)
          | (Inr r', es2) \<Rightarrow>
             (case check_type_rel R opr l' r' es2 of
                (Inl x, es3) \<Rightarrow> (Inl x, es3)
              | (Inr t, es3) \<Rightarrow> (Inr (Relop opr l' r' (Attr t)), es3))))"

subsection \<open>Visiting statements\<close>

text \<open>
  The state of the pass: the visitor's symbol table and the diagnostics reported so far.
\<close>

record state =
  symtab :: symtab
  errors :: "diag list"

text \<open>
  \<^verbatim>\<open>visit_AssignmentStatement\<close>. The target \<^verbatim>\<open>node.location\<close> is not visited;
  its attribute is whatever the node carries.
\<close>

definition visit_AssignmentStatement ::
  "rel_table \<Rightarrow> location \<Rightarrow> expr \<Rightarrow> state \<Rightarrow> (exn + statement) \<times> state" where
  "visit_AssignmentStatement R loc e s =
     (let symb = lookup (symtab s) (location_name loc);
          es0 = (if symb = None then error (NameNotDefined (location_name loc)) (errors s)
                 else errors s)
      in case visit_expr R (symtab s) e es0 of
           (Inl x, es1) \<Rightarrow> (Inl x, s\<lparr>errors := es1\<rparr>)
         | (Inr e', es1) \<Rightarrow>
            (let node = AssignmentStatement loc e';
                 var_mismatch =
                   (case symb of
                      Some (DeclObj (VarDeclaration n tn ie declared)) \<Rightarrow>
                        (case declared of
                           NoAttr \<Rightarrow> None
                         | Attr declared_type \<Rightarrow>
                            (case expr_check_type e' of
                               NoAttr \<Rightarrow> None
                             | Attr value_type \<Rightarrow>
                                if declared_type \<noteq> value_type
                                then Some (CannotAssign value_type declared_type)
                                else None))
                    | _ \<Rightarrow> None)
             in case var_mismatch of
                  Some msg \<Rightarrow> (Inr node, s\<lparr>errors := error msg es1\<rparr>)
                | None \<Rightarrow>
                   (case symb of
                      Some (DeclObj (ConstDeclaration n ce ca)) \<Rightarrow>
                        (Inr node, s\<lparr>errors := error (CannotAssignConst n) es1\<rparr>)
                    | _ \<Rightarrow>
                       (case location_check_type loc of
                          NoAttr \<Rightarrow> (Inr node, s\<lparr>errors := es1\<rparr>)
                        | Attr declared_type \<Rightarrow>
                           (case expr_check_type e' of
                              NoAttr \<Rightarrow> (Inr node, s\<lparr>errors := es1\<rparr>)
                            | Attr value_type \<Rightarrow>
                               (Inr node,
                                s\<lparr>errors :=
                                   (if declared_type \<noteq> value_type
                                    then error (CannotAssign value_type declared_type) es1
                                    else es1)\<rparr>))))))"

text \<open>
  \<^verbatim>\<open>visit_ConstDeclaration\<close>. The node is registered before its initializer is
  visited; \<^verbatim>\<open>node.expr.check_type\<close> raises when the visit left the initializer
  without the attribute.
\<close>

definition visit_ConstDeclaration ::
  "rel_table \<Rightarrow> string \<Rightarrow> expr \<Rightarrow> attr \<Rightarrow> state \<Rightarrow> (exn + statement) \<times> state" where
  "visit_ConstDeclaration R name e a s =
     (let es0 = (if lookup (symtab s) name \<noteq> None then error (RedefineConst name) (errors s)
                 else errors s);
          st1 = add (symtab s) name (DeclObj (ConstDeclaration name e a))
      in case visit_expr R st1 e es0 of
           (Inl x, es1) \<Rightarrow> (Inl x, \<lparr>symtab = st1, errors = es1\<rparr>)
         | (Inr e', es1) \<Rightarrow>
            (case getattr_check_type (expr_check_type e') of
               Inl x \<Rightarrow>
                 (Inl x, \<lparr>symtab = add st1 name (DeclObj (ConstDeclaration name e' a)),
                          errors = es1\<rparr>)
             | Inr t \<Rightarrow>
                 (let node = ConstDeclaration name e' (Attr t)
                  in (Inr node, \<lparr>symtab = add st1 name (DeclObj node), errors = es1\<rparr>))))"

text \<open>
  \<^verbatim>\<open>visit_VarDeclaration\<close>. \<^verbatim>\<open>self.visit(node.expr)\<close> does nothing when the
  declaration has no initializer (the spec: visit the initializer if present); then
  \<^verbatim>\<open>node.check_type.default\<close> raises when the declaration has no attribute or the
  attribute is \<^verbatim>\<open>None\<close>.
\<close>

definition visit_VarDeclaration ::
  "rel_table \<Rightarrow> string \<Rightarrow> typename_node \<Rightarrow> expr option \<Rightarrow> attr \<Rightarrow> state
     \<Rightarrow> (exn + statement) \<times> state" where
  "visit_VarDeclaration R name tn ie a s =
     (if lookup (symtab s) name \<noteq> None
      then (Inr (VarDeclaration name tn ie a), s\<lparr>errors := error (RedefineVar name) (errors s)\<rparr>)
      else
       (let st1 = add (symtab s) name (DeclObj (VarDeclaration name tn ie a));
            (tn', es1) = visit_Typename st1 tn (errors s);
            a1 = (case typename_check_type tn' of NoAttr \<Rightarrow> a | Attr t \<Rightarrow> Attr t);
            st2 = add st1 name (DeclObj (VarDeclaration name tn' ie a1))
        in case ie of
             Some e \<Rightarrow>
               (case visit_expr R st2 e es1 of
                  (Inl x, es2) \<Rightarrow> (Inl x, \<lparr>symtab = st2, errors = es2\<rparr>)
                | (Inr e', es2) \<Rightarrow>
                   (let node = VarDeclaration name tn' (Some e') a1
                    in (Inr node, \<lparr>symtab = add st2 name (DeclObj node), errors = es2\<rparr>)))
           | None \<Rightarrow>
               (case a1 of
                  NoAttr \<Rightarrow> (Inl AttributeError, \<lparr>symtab = st2, errors = es1\<rparr>)
                | Attr None \<Rightarrow> (Inl AttributeError, \<lparr>symtab = st2, errors = es1\<rparr>)
                | Attr (Some t) \<Rightarrow>
                   (let default = default_of t;
                        node = VarDeclaration name tn' (Some (Literal default a1)) a1
                    in (Inr node, \<lparr>symtab = add st2 name (DeclObj node), errors = es1\<rparr>)))))"

text \<open>The dispatch of \<^verbatim>\<open>NodeVisitor.visit\<close> on the class of a statement.\<close>

fun visit_statement :: "rel_table \<Rightarrow> statement \<Rightarrow> state \<Rightarrow> (exn + statement) \<times> state" where
  "visit_statement R (AssignmentStatement loc e) s = visit_AssignmentStatement R loc e s"
| "visit_statement R (ConstDeclaration name e a) s = visit_ConstDeclaration R name e a s"
| "visit_statement R (VarDeclaration name tn ie a) s = visit_VarDeclaration R name tn ie a s"

text \<open>
  \<^verbatim>\<open>visit_Program\<close>: the loop over \<^verbatim>\<open>node.statements.statements\<close>. After an
  assignment statement the target name is bound to the statement's expression node.
\<close>

fun visit_Program :: "rel_table \<Rightarrow> statement list \<Rightarrow> state \<Rightarrow> (exn + statement list) \<times> state" where
  "visit_Program R [] s = (Inr [], s)"
| "visit_Program R (stmt # rest) s =
     (case visit_statement R stmt s of
        (Inl x, s1) \<Rightarrow> (Inl x, s1)
      | (Inr stmt', s1) \<Rightarrow>
         (let s2 = (case stmt' of
                      AssignmentStatement loc e' \<Rightarrow>
                        s1\<lparr>symtab := add (symtab s1) (location_name loc) (ExprObj e')\<rparr>
                    | _ \<Rightarrow> s1)
          in case visit_Program R rest s2 of
               (Inl x, s3) \<Rightarrow> (Inl x, s3)
             | (Inr rest', s3) \<Rightarrow> (Inr (stmt' # rest'), s3)))"

text \<open>\<^verbatim>\<open>check_program\<close>: a fresh visitor, then the visit of the program.\<close>

definition check_program :: "rel_table \<Rightarrow> statement list \<Rightarrow> (exn + statement list) \<times> state" where
  "check_program R stmts = visit_Program R stmts \<lparr>symtab = init_symtab, errors = []\<rparr>"

subsection \<open>Example table, programs and states\<close>

text \<open>
  An example of a table of relational operators, used where a theorem is stated at a
  concrete input. Nothing below depends on it being the table of the language.
\<close>

fun rel_ops_sample :: rel_table where
  "rel_ops_sample IntType = {''<'', ''>'', ''<='', ''>='', ''=='', ''!=''}"
| "rel_ops_sample FloatType = {''<'', ''>'', ''<='', ''>='', ''=='', ''!=''}"
| "rel_ops_sample StringType = {''=='', ''!=''}"
| "rel_ops_sample BoolType = {''=='', ''!=''}"

text \<open>
  \<open>erase\<close> forgets the attributes of an expression tree: two trees with the same
  erasure are the same syntax, annotated differently.
\<close>

fun erase :: "expr \<Rightarrow> expr" where
  "erase (Literal v a) = Literal v NoAttr"
| "erase (LoadLocation (Location n la) a) = LoadLocation (Location n NoAttr) NoAttr"
| "erase (Unaryop opr e a) = Unaryop opr (erase e) NoAttr"
| "erase (Binop opr l r a) = Binop opr (erase l) (erase r) NoAttr"
| "erase (Relop opr l r a) = Relop opr (erase l) (erase r) NoAttr"

text \<open>\<^verbatim>\<open>a = 3; var a int;\<close>\<close>

definition prog_use_before_decl :: "statement list" where
  "prog_use_before_decl =
     [AssignmentStatement (Location ''a'' NoAttr) (Literal (IntV 3) NoAttr),
      VarDeclaration ''a'' (Typename ''int'' NoAttr) None NoAttr]"

text \<open>\<^verbatim>\<open>var a int = 2; var b float = 3.14; var d int = a + b;\<close>\<close>

definition prog_mixed_binop :: "statement list" where
  "prog_mixed_binop =
     [VarDeclaration ''a'' (Typename ''int'' NoAttr) (Some (Literal (IntV 2) NoAttr)) NoAttr,
      VarDeclaration ''b'' (Typename ''float'' NoAttr) (Some (Literal (FloatV 3.14) NoAttr)) NoAttr,
      VarDeclaration ''d'' (Typename ''int'' NoAttr)
        (Some (Binop ''+'' (LoadLocation (Location ''a'' NoAttr) NoAttr)
                           (LoadLocation (Location ''b'' NoAttr) NoAttr) NoAttr)) NoAttr]"

text \<open>\<^verbatim>\<open>var b float = 3.14; var e int = b + 4.5;\<close>\<close>

definition prog_decl_mismatch :: "statement list" where
  "prog_decl_mismatch =
     [VarDeclaration ''b'' (Typename ''float'' NoAttr) (Some (Literal (FloatV 3.14) NoAttr)) NoAttr,
      VarDeclaration ''e'' (Typename ''int'' NoAttr)
        (Some (Binop ''+'' (LoadLocation (Location ''b'' NoAttr) NoAttr)
                           (Literal (FloatV 4.5) NoAttr) NoAttr)) NoAttr]"

text \<open>\<^verbatim>\<open>const x = 1; x = 2;\<close>\<close>

definition prog_assign_const :: "statement list" where
  "prog_assign_const =
     [ConstDeclaration ''x'' (Literal (IntV 1) NoAttr) NoAttr,
      AssignmentStatement (Location ''x'' NoAttr) (Literal (IntV 2) NoAttr)]"

text \<open>\<^verbatim>\<open>const x = 1; const a = -y; x = a;\<close>\<close>

definition prog_assign_const_crash :: "statement list" where
  "prog_assign_const_crash =
     [ConstDeclaration ''x'' (Literal (IntV 1) NoAttr) NoAttr,
      ConstDeclaration ''a''
        (Unaryop ''-'' (LoadLocation (Location ''y'' NoAttr) NoAttr) NoAttr) NoAttr,
      AssignmentStatement (Location ''x'' NoAttr) (LoadLocation (Location ''a'' NoAttr) NoAttr)]"

text \<open>
  A constant \<^verbatim>\<open>c\<close> whose initializer is a literal of an unrecognized kind, then
  \<^verbatim>\<open>const d = c;\<close>
\<close>

definition prog_unrecognized_const :: "statement list" where
  "prog_unrecognized_const =
     [ConstDeclaration ''c'' (Literal OtherV NoAttr) NoAttr,
      ConstDeclaration ''d'' (LoadLocation (Location ''c'' NoAttr) NoAttr) NoAttr]"

text \<open>\<^verbatim>\<open>var a int; var a int;\<close>\<close>

definition prog_redeclare :: "statement list" where
  "prog_redeclare =
     [VarDeclaration ''a'' (Typename ''int'' NoAttr) None NoAttr,
      VarDeclaration ''a'' (Typename ''int'' NoAttr) None NoAttr]"

text \<open>\<^verbatim>\<open>const a = b;\<close> with \<^verbatim>\<open>b\<close> undeclared\<close>

definition prog_const_undefined :: "statement list" where
  "prog_const_undefined =
     [ConstDeclaration ''a'' (LoadLocation (Location ''b'' NoAttr) NoAttr) NoAttr]"

text \<open>The state of a fresh pass after \<^verbatim>\<open>var a int;\<close>\<close>

definition state_a_declared :: state where
  "state_a_declared =
     \<lparr>symtab = add init_symtab ''a''
        (DeclObj (VarDeclaration ''a'' (Typename ''int'' (Attr (Some IntType)))
           (Some (Literal (IntV 0) (Attr (Some IntType)))) (Attr (Some IntType)))),
      errors = []\<rparr>"

section \<open>Properties\<close>

lemmas visit_defs = check_program_def visit_AssignmentStatement_def visit_ConstDeclaration_def
  visit_VarDeclaration_def visit_Typename_def visit_LoadLocation_def visit_Literal_def
  check_type_unary_def check_type_binary_def check_type_rel_def
  init_symtab_def add_def lookup_def error_def Let_def

subsection \<open>Visiting an expression\<close>

text \<open>A visit annotates the tree it is given: the syntax is unchanged.\<close>

lemma erase_visit_expr: "visit_expr R st e es = (Inr e', es') \<Longrightarrow> erase e' = erase e"
proof (induction e arbitrary: es e' es')
  case (Literal v a)
  then show ?case by (auto simp: visit_Literal_def Let_def)
next
  case (LoadLocation loc a)
  then show ?case
    by (cases loc) (auto simp: visit_LoadLocation_def split: option.splits entry.splits sum.splits)
next
  case (Unaryop opr e a)
  then show ?case by (auto split: prod.splits sum.splits)
next
  case (Binop opr l r a)
  then show ?case by (auto split: prod.splits sum.splits)
next
  case (Relop opr l r a)
  then show ?case by (auto split: prod.splits sum.splits)
qed

text \<open>A visit only adds diagnostics, also when it raises.\<close>

lemma visit_expr_errors: "\<exists>es'. snd (visit_expr R st e es) = es @ es'"
proof (induction e arbitrary: es)
  case (Literal v a)
  then show ?case by (simp add: visit_Literal_def Let_def error_def)
next
  case (LoadLocation loc a)
  then show ?case
    by (auto simp: visit_LoadLocation_def error_def split: option.splits entry.splits sum.splits)
next
  case (Unaryop opr e a)
  from Unaryop.IH [of es] obtain es1 where 1: "snd (visit_expr R st e es) = es @ es1" by blast
  show ?case
    by (cases "visit_expr R st e es")
       (use 1 in \<open>auto simp: check_type_unary_def error_def
                         split: sum.splits attr.splits option.splits\<close>)
next
  case (Binop opr l r a)
  from Binop.IH(1) [of es] obtain es1 where 1: "snd (visit_expr R st l es) = es @ es1" by blast
  from Binop.IH(2) [of "es @ es1"] obtain es2 where
    2: "snd (visit_expr R st r (es @ es1)) = es @ es1 @ es2" by auto
  show ?case
    by (cases "visit_expr R st l es"; cases "visit_expr R st r (es @ es1)")
       (use 1 2 in \<open>auto simp: check_type_binary_def error_def
                           split: sum.splits attr.splits option.splits\<close>)
next
  case (Relop opr l r a)
  from Relop.IH(1) [of es] obtain es1 where 1: "snd (visit_expr R st l es) = es @ es1" by blast
  from Relop.IH(2) [of "es @ es1"] obtain es2 where
    2: "snd (visit_expr R st r (es @ es1)) = es @ es1 @ es2" by auto
  show ?case
    by (cases "visit_expr R st l es"; cases "visit_expr R st r (es @ es1)")
       (use 1 2 in \<open>auto simp: check_type_rel_def error_def
                           split: sum.splits attr.splits option.splits\<close>)
qed

subsection \<open>Locations\<close>

text \<open>
  Claim C1. Visiting a Location whose name is not bound should report "name not found"
  and go on without raising. The code reports the diagnostic and then reads
  \<^verbatim>\<open>sym.check_type\<close> of \<^verbatim>\<open>None\<close>: the visit raises AttributeError.
\<close>

theorem visit_Location_unbound_raises:
  "lookup st n = None \<Longrightarrow>
   visit_Location st (Location n a) es = (Inl AttributeError, es @ [NameNotFound n])"
  by (simp add: visit_Location_def error_def)

theorem visit_Location_unbound_raises_witness:
  "lookup init_symtab ''a'' = None \<and>
   visit_Location init_symtab (Location ''a'' NoAttr) [] =
     (Inl AttributeError, [NameNotFound ''a''])"
proof -
  have u: "lookup init_symtab ''a'' = None"
    by (simp add: init_symtab_def lookup_def)
  from visit_Location_unbound_raises [OF u, of NoAttr "[]"] u show ?thesis by simp
qed

text \<open>
  The pass also raises on an ordinary semantic error of a whole program: in
  \<^verbatim>\<open>const a = b;\<close> the undeclared \<^verbatim>\<open>b\<close> is reported, its node is left without
  the attribute, and \<^verbatim>\<open>node.expr.check_type\<close> in \<^verbatim>\<open>visit_ConstDeclaration\<close>
  raises AttributeError.
\<close>

lemma const_undefined_name_raises:
  "fst (check_program R prog_const_undefined) = Inl AttributeError \<and>
   errors (snd (check_program R prog_const_undefined)) = [NameNotFound ''b'']"
  by (simp add: prog_const_undefined_def visit_defs)

subsection \<open>Use before declaration\<close>

text \<open>
  Claim C2. Checking \<^verbatim>\<open>a = 3; var a int;\<close> should report exactly one "not defined"
  error and no other diagnostic (the docstring of the module gives this program and
  marks only the assignment as an error). The code reports the "not defined" error and
  then a second diagnostic: \<^verbatim>\<open>visit_Program\<close> has bound the undeclared \<^verbatim>\<open>a\<close> to
  the assigned expression, so the declaration that follows is reported as a redefinition
  and abandoned, and \<^verbatim>\<open>a\<close> stays bound to the literal.
\<close>

theorem use_before_decl_two_diagnostics:
  "fst (check_program R prog_use_before_decl) =
     Inr [AssignmentStatement (Location ''a'' NoAttr) (Literal (IntV 3) (Attr (Some IntType))),
          VarDeclaration ''a'' (Typename ''int'' NoAttr) None NoAttr] \<and>
   errors (snd (check_program R prog_use_before_decl)) =
     [NameNotDefined ''a'', RedefineVar ''a''] \<and>
   lookup (symtab (snd (check_program R prog_use_before_decl))) ''a'' =
     Some (ExprObj (Literal (IntV 3) (Attr (Some IntType))))"
  by (simp add: prog_use_before_decl_def visit_defs)

subsection \<open>Declared type against the type of the initializer\<close>

text \<open>
  Claim C3. Checking \<^verbatim>\<open>var a int = 2; var b float = 3.14; var d int = a + b;\<close>
  reports exactly one "matching LHS/RHS types" error; but checking
  \<^verbatim>\<open>var b float = 3.14; var e int = b + 4.5;\<close> reports nothing: the declaration
  \<^verbatim>\<open>e\<close> is annotated with the type int and its initializer with the type float, and
  \<^verbatim>\<open>visit_VarDeclaration\<close> never compares the two.
\<close>

theorem decl_type_mismatch_not_diagnosed:
  "errors (snd (check_program R prog_mixed_binop)) = [BinaryMismatch ''+''] \<and>
   fst (check_program R prog_decl_mismatch) =
     Inr [VarDeclaration ''b'' (Typename ''float'' (Attr (Some FloatType)))
            (Some (Literal (FloatV 3.14) (Attr (Some FloatType)))) (Attr (Some FloatType)),
          VarDeclaration ''e'' (Typename ''int'' (Attr (Some IntType)))
            (Some (Binop ''+'' (LoadLocation (Location ''b'' NoAttr) (Attr (Some FloatType)))
                     (Literal (FloatV 4.5) (Attr (Some FloatType))) (Attr (Some FloatType))))
            (Attr (Some IntType))] \<and>
   errors (snd (check_program R prog_decl_mismatch)) = []"
  by (simp add: prog_mixed_binop_def prog_decl_mismatch_def visit_defs)

subsection \<open>Literals of an unrecognized kind\<close>

text \<open>
  What \<^verbatim>\<open>visit_Literal\<close> does with a value kind outside the type map: it reports
  the error and, having no \<^verbatim>\<open>return\<close> there, goes on to assign \<^verbatim>\<open>None\<close> to the
  attribute \<^verbatim>\<open>check_type\<close> of the node.
\<close>

lemma visit_Literal_unrecognized:
  "typemap (type_of_value v) = None \<Longrightarrow>
   visit_Literal v a es =
     (Inr (Literal v (Attr None)), es @ [UnrecognizedType (type_of_value v)])"
  by (simp add: visit_Literal_def error_def)

text \<open>
  Claim C4. A Literal whose value kind is outside the type map should be reported as an
  "unrecognized type" and left without a type attribute, so that the rules reading it
  skip their checks rather than fail. The code reports the error, but the node is not
  left without the attribute: \<^verbatim>\<open>check_type\<close> is present and holds \<^verbatim>\<open>None\<close>, the
  \<^verbatim>\<open>hasattr\<close> test of the rule above it succeeds, and the unary operator check over
  such a literal raises AttributeError (\<^verbatim>\<open>None.unary_ops\<close>).
\<close>

theorem unrecognized_literal_downstream_raises:
  "visit_Literal OtherV NoAttr [] = (Inr (Literal OtherV (Attr None)), [UnrecognizedType Kother]) \<and>
   expr_check_type (Literal OtherV (Attr None)) \<noteq> NoAttr \<and>
   visit_expr R st (Unaryop ''-'' (Literal OtherV NoAttr) NoAttr) [] =
     (Inl AttributeError, [UnrecognizedType Kother])"
  by (simp add: visit_defs)

subsection \<open>Relational and binary operators\<close>

text \<open>
  Claim C5. For every Relational-op node whose two operands, once visited, both carry an
  inferred type: if the two types differ, the type of the node is the left operand's type
  (and the mismatch is reported); if they agree and the operator is not among the
  relational operators of the type, an error is reported (naming the RHS) and the type
  of the node is boolean.
\<close>

theorem visit_Relop_result_type:
  assumes "visit_expr R st l es = (Inr l', es1)"
    and "visit_expr R st r es1 = (Inr r', es2)"
    and "expr_check_type l' = Attr (Some lt)"
    and "expr_check_type r' = Attr (Some rt)"
  shows "(lt \<noteq> rt \<longrightarrow>
           visit_expr R st (Relop opr l r a) es =
             (Inr (Relop opr l' r' (Attr (Some lt))), es2 @ [RelMismatch opr])) \<and>
         (lt = rt \<and> opr \<notin> R lt \<longrightarrow>
           visit_expr R st (Relop opr l r a) es =
             (Inr (Relop opr l' r' (Attr (Some BoolType))), es2 @ [RelNotSupported opr RHS]))"
  using assms by (simp add: check_type_rel_def error_def)

theorem visit_Relop_result_type_witness:
  "visit_expr rel_ops_sample init_symtab
     (Relop ''<'' (Literal (IntV 1) NoAttr) (Literal (StrV ''x'') NoAttr) NoAttr) [] =
     (Inr (Relop ''<'' (Literal (IntV 1) (Attr (Some IntType)))
             (Literal (StrV ''x'') (Attr (Some StringType))) (Attr (Some IntType))),
      [RelMismatch ''<'']) \<and>
   ''<'' \<notin> rel_ops_sample StringType \<and>
   visit_expr rel_ops_sample init_symtab
     (Relop ''<'' (Literal (StrV ''x'') NoAttr) (Literal (StrV ''y'') NoAttr) NoAttr) [] =
     (Inr (Relop ''<'' (Literal (StrV ''x'') (Attr (Some StringType)))
             (Literal (StrV ''y'') (Attr (Some StringType))) (Attr (Some BoolType))),
      [RelNotSupported ''<'' RHS])"
proof -
  have i: "visit_expr rel_ops_sample init_symtab (Literal (IntV 1) NoAttr) [] =
             (Inr (Literal (IntV 1) (Attr (Some IntType))), [])"
    by (simp add: visit_Literal_def)
  have x: "visit_expr rel_ops_sample init_symtab (Literal (StrV ''x'') NoAttr) [] =
             (Inr (Literal (StrV ''x'') (Attr (Some StringType))), [])"
    by (simp add: visit_Literal_def)
  have y: "visit_expr rel_ops_sample init_symtab (Literal (StrV ''y'') NoAttr) [] =
             (Inr (Literal (StrV ''y'') (Attr (Some StringType))), [])"
    by (simp add: visit_Literal_def)
  have n: "''<'' \<notin> rel_ops_sample StringType" by simp
  from visit_Relop_result_type [OF i x, of IntType StringType "''<''" NoAttr]
  have 1: "visit_expr rel_ops_sample init_symtab
     (Relop ''<'' (Literal (IntV 1) NoAttr) (Literal (StrV ''x'') NoAttr) NoAttr) [] =
     (Inr (Relop ''<'' (Literal (IntV 1) (Attr (Some IntType)))
             (Literal (StrV ''x'') (Attr (Some StringType))) (Attr (Some IntType))),
      [RelMismatch ''<''])"
    by simp
  from visit_Relop_result_type [OF x y, of StringType StringType "''<''" NoAttr] n
  have 2: "visit_expr rel_ops_sample init_symtab
     (Relop ''<'' (Literal (StrV ''x'') NoAttr) (Literal (StrV ''y'') NoAttr) NoAttr) [] =
     (Inr (Relop ''<'' (Literal (StrV ''x'') (Attr (Some StringType)))
             (Literal (StrV ''y'') (Attr (Some StringType))) (Attr (Some BoolType))),
      [RelNotSupported ''<'' RHS])"
    by simp
  from 1 n 2 show ?thesis by blast
qed

text \<open>
  Claim C6. For every Binary-op node whose two operands, once visited, carry the same
  inferred type, and whose operator is not among the binary operators of that type (so
  of neither side), exactly one error is reported, naming the RHS, and the type of the
  node is the left operand's type.
\<close>

theorem visit_Binop_unsupported_both:
  assumes "visit_expr R st l es = (Inr l', es1)"
    and "visit_expr R st r es1 = (Inr r', es2)"
    and "expr_check_type l' = Attr (Some t)"
    and "expr_check_type r' = Attr (Some t)"
    and "opr \<notin> binary_ops t"
  shows "visit_expr R st (Binop opr l r a) es =
           (Inr (Binop opr l' r' (Attr (Some t))), es2 @ [BinaryNotSupported opr RHS])"
  using assms by (simp add: check_type_binary_def error_def)

theorem visit_Binop_unsupported_both_witness:
  "''*'' \<notin> binary_ops StringType \<and>
   visit_expr rel_ops_sample init_symtab
     (Binop ''*'' (Literal (StrV ''Hello'') NoAttr) (Literal (StrV ''World'') NoAttr) NoAttr) [] =
     (Inr (Binop ''*'' (Literal (StrV ''Hello'') (Attr (Some StringType)))
             (Literal (StrV ''World'') (Attr (Some StringType))) (Attr (Some StringType))),
      [BinaryNotSupported ''*'' RHS])"
proof -
  have x: "visit_expr rel_ops_sample init_symtab (Literal (StrV ''Hello'') NoAttr) [] =
             (Inr (Literal (StrV ''Hello'') (Attr (Some StringType))), [])"
    by (simp add: visit_Literal_def)
  have y: "visit_expr rel_ops_sample init_symtab (Literal (StrV ''World'') NoAttr) [] =
             (Inr (Literal (StrV ''World'') (Attr (Some StringType))), [])"
    by (simp add: visit_Literal_def)
  have n: "''*'' \<notin> binary_ops StringType" by simp
  from visit_Binop_unsupported_both [OF x y _ _ n, of NoAttr] n show ?thesis by simp
qed

subsection \<open>Redeclaration\<close>

text \<open>
  A constant declaration always registers its node, whatever the visit of its
  initializer does afterwards (also when that visit raises).
\<close>

lemma visit_ConstDeclaration_rebinds:
  assumes "lookup (symtab s) name \<noteq> None"
  shows "\<exists>e' a' es'.
           lookup (symtab (snd (visit_ConstDeclaration R name e a s))) name =
             Some (DeclObj (ConstDeclaration name e' a')) \<and>
           erase e' = erase e \<and>
           errors (snd (visit_ConstDeclaration R name e a s)) =
             errors s @ RedefineConst name # es'"
proof -
  let ?st1 = "add (symtab s) name (DeclObj (ConstDeclaration name e a))"
  let ?es0 = "error (RedefineConst name) (errors s)"
  obtain r es1 where v: "visit_expr R ?st1 e ?es0 = (r, es1)"
    by (cases "visit_expr R ?st1 e ?es0")
  from visit_expr_errors [of R ?st1 e ?es0] v obtain es' where
    es: "es1 = errors s @ RedefineConst name # es'"
    by (auto simp: error_def)
  show ?thesis
  proof (cases r)
    case (Inl x)
    with v es assms show ?thesis
      by (simp add: visit_ConstDeclaration_def Let_def add_def lookup_def)
  next
    case (Inr e')
    with v have "erase e' = erase e"
      by (simp add: erase_visit_expr)
    with Inr v es assms show ?thesis
      by (cases "expr_check_type e'")
         (simp_all add: visit_ConstDeclaration_def Let_def add_def lookup_def)
  qed
qed

text \<open>
  Claim C7. Redeclaration is handled asymmetrically. For every Constant Declaration whose
  name is already bound, a redefinition error is reported (the first diagnostic of the
  visit) and the name is bound to the new declaration all the same: the table holds a
  constant declaration of that name with the new initializer, annotated or not. For
  every Variable Declaration whose name is already bound, a redefinition error is
  reported and nothing else happens: the node and the symbol table are unchanged.
\<close>

theorem redeclaration_asymmetric:
  assumes "lookup (symtab s) name \<noteq> None"
  shows "(\<exists>e' a' es'.
            lookup (symtab (snd (visit_ConstDeclaration R name e a s))) name =
              Some (DeclObj (ConstDeclaration name e' a')) \<and>
            erase e' = erase e \<and>
            errors (snd (visit_ConstDeclaration R name e a s)) =
              errors s @ RedefineConst name # es') \<and>
         visit_VarDeclaration R name tn ie va s =
           (Inr (VarDeclaration name tn ie va), s\<lparr>errors := errors s @ [RedefineVar name]\<rparr>)"
  using visit_ConstDeclaration_rebinds [OF assms] assms
  by (simp add: visit_VarDeclaration_def error_def)

theorem redeclaration_asymmetric_witness:
  "lookup (symtab state_a_declared) ''a'' \<noteq> None \<and>
   lookup (symtab (snd (visit_ConstDeclaration rel_ops_sample ''a'' (Literal (IntV 1) NoAttr)
                          NoAttr state_a_declared))) ''a'' =
     Some (DeclObj (ConstDeclaration ''a'' (Literal (IntV 1) (Attr (Some IntType)))
                      (Attr (Some IntType)))) \<and>
   errors (snd (visit_ConstDeclaration rel_ops_sample ''a'' (Literal (IntV 1) NoAttr) NoAttr
                  state_a_declared)) = [RedefineConst ''a''] \<and>
   visit_VarDeclaration rel_ops_sample ''a'' (Typename ''float'' NoAttr) None NoAttr
       state_a_declared =
     (Inr (VarDeclaration ''a'' (Typename ''float'' NoAttr) None NoAttr),
      state_a_declared\<lparr>errors := [RedefineVar ''a'']\<rparr>)"
proof -
  have b: "lookup (symtab state_a_declared) ''a'' \<noteq> None"
    by (simp add: state_a_declared_def add_def lookup_def)
  have e: "errors state_a_declared = []"
    by (simp add: state_a_declared_def)
  from redeclaration_asymmetric
         [OF b, of rel_ops_sample "Literal (IntV 1) NoAttr" NoAttr
            "Typename ''float'' NoAttr" None NoAttr] e
  have v: "visit_VarDeclaration rel_ops_sample ''a'' (Typename ''float'' NoAttr) None NoAttr
       state_a_declared =
     (Inr (VarDeclaration ''a'' (Typename ''float'' NoAttr) None NoAttr),
      state_a_declared\<lparr>errors := [RedefineVar ''a'']\<rparr>)"
    by simp
  have c: "lookup (symtab (snd (visit_ConstDeclaration rel_ops_sample ''a''
                                  (Literal (IntV 1) NoAttr) NoAttr state_a_declared))) ''a'' =
     Some (DeclObj (ConstDeclaration ''a'' (Literal (IntV 1) (Attr (Some IntType)))
                      (Attr (Some IntType))))"
    by (simp add: state_a_declared_def visit_defs)
  have d: "errors (snd (visit_ConstDeclaration rel_ops_sample ''a'' (Literal (IntV 1) NoAttr)
                          NoAttr state_a_declared)) = [RedefineConst ''a'']"
    by (simp add: state_a_declared_def visit_defs)
  from b c d v show ?thesis by blast
qed

subsection \<open>Assignment to a constant\<close>

text \<open>
  When the target of an assignment resolves to a constant declaration and the visit of
  the source expression returns, the statement reports "cannot assign to constant" after
  the diagnostics of the expression, and nothing more.
\<close>

lemma visit_AssignmentStatement_const:
  assumes "lookup (symtab s) (location_name loc) = Some (DeclObj (ConstDeclaration n ce ca))"
    and "visit_expr R (symtab s) e (errors s) = (Inr e', es1)"
  shows "visit_AssignmentStatement R loc e s =
           (Inr (AssignmentStatement loc e'), s\<lparr>errors := es1 @ [CannotAssignConst n]\<rparr>)"
  using assms by (simp add: visit_AssignmentStatement_def Let_def error_def)

text \<open>\<^verbatim>\<open>const x = 1; x = 2;\<close> yields exactly one "cannot assign to constant" error.\<close>

lemma assign_const_one_error:
  "fst (check_program R prog_assign_const) =
     Inr [ConstDeclaration ''x'' (Literal (IntV 1) (Attr (Some IntType))) (Attr (Some IntType)),
          AssignmentStatement (Location ''x'' NoAttr) (Literal (IntV 2) (Attr (Some IntType)))] \<and>
   errors (snd (check_program R prog_assign_const)) = [CannotAssignConst ''x'']"
  by (simp add: prog_assign_const_def visit_defs)

text \<open>
  Claim C8. Every assignment whose target resolves to a constant declaration should be
  reported as "cannot assign to constant". In \<^verbatim>\<open>const x = 1; const a = -y; x = a;\<close>
  the target \<^verbatim>\<open>x\<close> of the assignment is a constant, but the pass raises NameError while
  it visits the source expression \<^verbatim>\<open>a\<close> (the type attribute of \<^verbatim>\<open>a\<close> is
  \<^verbatim>\<open>None\<close>), before the test for a constant: the only diagnostic is the one for
  \<^verbatim>\<open>y\<close>.
\<close>

theorem assign_const_pass_raises:
  "fst (check_program R prog_assign_const_crash) = Inl NameError \<and>
   errors (snd (check_program R prog_assign_const_crash)) = [NameNotFound ''y''] \<and>
   lookup (symtab (snd (check_program R prog_assign_const_crash))) ''x'' =
     Some (DeclObj (ConstDeclaration ''x'' (Literal (IntV 1) (Attr (Some IntType)))
                      (Attr (Some IntType))))"
  by (simp add: prog_assign_const_crash_def visit_defs)

subsection \<open>The default initializer\<close>

text \<open>
  Claim C9, as amended. For every Variable Declaration that has no initializer, whose
  name is not bound yet and whose type name resolves to a type, after checking the
  declaration carries a synthesized Literal initializer whose value is the default value
  of the declared type and whose attached type is the declared type; the declaration
  itself carries the declared type, it is what the table binds the name to, and nothing
  is reported.
\<close>

theorem var_default_initializer:
  assumes "lookup (symtab s) name = None"
    and "lookup (symtab s) tname = Some (TypeObj t)"
  shows "fst (visit_VarDeclaration R name (Typename tname ta) None a s) =
           Inr (VarDeclaration name (Typename tname (Attr (Some t)))
                  (Some (Literal (default_of t) (Attr (Some t)))) (Attr (Some t))) \<and>
         lookup (symtab (snd (visit_VarDeclaration R name (Typename tname ta) None a s))) name =
           Some (DeclObj (VarDeclaration name (Typename tname (Attr (Some t)))
                  (Some (Literal (default_of t) (Attr (Some t)))) (Attr (Some t)))) \<and>
         errors (snd (visit_VarDeclaration R name (Typename tname ta) None a s)) = errors s"
proof -
  from assms have "tname \<noteq> name" by auto
  with assms show ?thesis
    by (simp add: visit_VarDeclaration_def visit_Typename_def Let_def add_def lookup_def)
qed

theorem var_default_initializer_witness:
  "lookup init_symtab ''a'' = None \<and>
   lookup init_symtab ''float'' = Some (TypeObj FloatType) \<and>
   fst (visit_VarDeclaration rel_ops_sample ''a'' (Typename ''float'' NoAttr) None NoAttr
          \<lparr>symtab = init_symtab, errors = []\<rparr>) =
     Inr (VarDeclaration ''a'' (Typename ''float'' (Attr (Some FloatType)))
            (Some (Literal (FloatV 0) (Attr (Some FloatType)))) (Attr (Some FloatType)))"
proof -
  have 1: "lookup (symtab \<lparr>symtab = init_symtab, errors = []\<rparr>) ''a'' = None"
    by (simp add: init_symtab_def lookup_def)
  have 2: "lookup (symtab \<lparr>symtab = init_symtab, errors = []\<rparr>) ''float'' =
             Some (TypeObj FloatType)"
    by (simp add: init_symtab_def lookup_def)
  from var_default_initializer [OF 1 2, of rel_ops_sample NoAttr NoAttr] 1 2
  show ?thesis by simp
qed

text \<open>
  Claim C9 as stated fails: in \<^verbatim>\<open>var a int; var a int;\<close> the second declaration has
  no initializer and, being a redeclaration, is abandoned: after checking it still has
  none.
\<close>

theorem var_redeclared_no_initializer_counterexample:
  "fst (check_program rel_ops_sample prog_redeclare) =
     Inr [VarDeclaration ''a'' (Typename ''int'' (Attr (Some IntType)))
            (Some (Literal (IntV 0) (Attr (Some IntType)))) (Attr (Some IntType)),
          VarDeclaration ''a'' (Typename ''int'' NoAttr) None NoAttr]"
  by (simp add: prog_redeclare_def visit_defs)

subsection \<open>Loading a name whose type attribute is None\<close>

text \<open>
  Claim C10. There is a reachable input on which visiting a Load-Location raises: after
  a constant \<^verbatim>\<open>c\<close> was declared with a literal of an unrecognized kind, its attached
  type is \<^verbatim>\<open>None\<close>, and \<^verbatim>\<open>const d = c;\<close> makes the pass raise NameError (the
  undefined \<^verbatim>\<open>valtype\<close> of the error branch). The only diagnostic is the one of the
  literal; at the table of that moment, visiting a Load-Location of \<^verbatim>\<open>c\<close> raises and
  reports nothing.
\<close>

theorem load_unrecognized_const_raises:
  "fst (check_program R prog_unrecognized_const) = Inl NameError \<and>
   errors (snd (check_program R prog_unrecognized_const)) = [UnrecognizedType Kother] \<and>
   visit_LoadLocation (symtab (snd (check_program R prog_unrecognized_const)))
     (Location ''c'' NoAttr) NoAttr es = (Inl NameError, es)"
  by (simp add: prog_unrecognized_const_def visit_defs)

end
